theory Spec2Isabelle
  imports Main
begin

section \<open>Python string primitives used by the translators\<close>

text \<open>
  Python strings are modelled as HOL strings (lists of characters), a character standing
  for a code point below 256. The helpers below are the string methods the two
  translator classes call.
\<close>

definition nl :: char where
  "nl = CHR 0x0A"

text \<open>\<^verbatim>\<open>str.isspace\<close> on one character below 256: TAB, LF, VT, FF, CR, FS, GS, RS, US,
  space, NEL (U+0085) and the no-break space (U+00A0). The same set is what the regular
  expression \<^verbatim>\<open>\s\<close> matches there.\<close>

definition is_space :: "char \<Rightarrow> bool" where
  "is_space c =
     (let n = (of_char c :: nat)
      in (9 \<le> n \<and> n \<le> 13) \<or> (28 \<le> n \<and> n \<le> 31) \<or> n = 32 \<or> n = 133 \<or> n = 160)"

text \<open>\<^verbatim>\<open>s.strip()\<close>\<close>

definition strip :: "string \<Rightarrow> string" where
  "strip s = rev (dropWhile is_space (rev (dropWhile is_space s)))"

text \<open>\<^verbatim>\<open>s.split("\n")\<close>: never returns the empty list.\<close>

fun split_nl :: "string \<Rightarrow> string list" where
  "split_nl [] = [[]]"
| "split_nl (c # cs) =
     (if c = nl then [] # split_nl cs
      else (c # hd (split_nl cs)) # tl (split_nl cs))"

text \<open>\<^verbatim>\<open>"\n".join(lines)\<close>\<close>

fun join_nl :: "string list \<Rightarrow> string" where
  "join_nl [] = []"
| "join_nl [l] = l"
| "join_nl (l # ls) = l @ [nl] @ join_nl ls"

text \<open>\<^verbatim>\<open>s.replace("\n", "\n" + indent)\<close>\<close>

definition replace_nl :: "string \<Rightarrow> string \<Rightarrow> string" where
  "replace_nl indent s = concat (map (\<lambda>c. if c = nl then nl # indent else [c]) s)"

text \<open>\<^verbatim>\<open>re.sub(re.compile(r"\s"), "-", s)\<close>: every single whitespace character is
  replaced by one hyphen.\<close>

definition URI_SPACE_REPLACE :: "string \<Rightarrow> string" where
  "URI_SPACE_REPLACE s = map (\<lambda>c. if is_space c then CHR ''-'' else c) s"

section \<open>Inline links\<close>

text \<open>
  \<^verbatim>\<open>SPLIT_URI_ID_REGEX = re.compile(r"([^\#]*)\#?(.*)")\<close>, used with \<^verbatim>\<open>re.search\<close>.
  The match always starts at position 0: group 1 is the longest prefix without a hash
  (line breaks included), an optional hash is consumed, and group 2 is the rest of that
  line (the dot does not match a line break).
\<close>

definition split_uri_id :: "string \<Rightarrow> string \<times> string" where
  "split_uri_id uri =
     (let g1 = takeWhile (\<lambda>c. c \<noteq> CHR ''#'') uri;
          rest = dropWhile (\<lambda>c. c \<noteq> CHR ''#'') uri;
          rest' = (case rest of [] \<Rightarrow> [] | c # cs \<Rightarrow> cs)
      in (g1, takeWhile (\<lambda>c. c \<noteq> nl) rest'))"

definition add_extension_to_inline_link :: "string \<Rightarrow> string \<Rightarrow> string" where
  "add_extension_to_inline_link uri ext =
     (if CHR ''.'' \<notin> set uri
      then (case split_uri_id uri of (u, id_) \<Rightarrow> u @ ext @ ''#'' @ id_)
      else uri)"

section \<open>Trailing blank lines\<close>

datatype error = IndexError | KeyError | TypeError | AttributeError

text \<open>
  The loop of \<^verbatim>\<open>strip_blank_lines_in_end_of_block\<close>: \<^verbatim>\<open>for line in range(len(lines))\<close>
  with the number of iterations left as first argument. Reading \<^verbatim>\<open>lines[-1]\<close> of an
  empty list would raise.
\<close>

fun strip_loop :: "nat \<Rightarrow> string list \<Rightarrow> error + string list" where
  "strip_loop 0 lines = Inr lines"
| "strip_loop (Suc k) lines =
     (if lines = [] then Inl IndexError
      else if length (strip (last lines)) = 0 then strip_loop k (butlast lines)
      else Inr lines)"

definition strip_blank_lines_in_end_of_block :: "string \<Rightarrow> error + string" where
  "strip_blank_lines_in_end_of_block line_text =
     (let lines = split_nl line_text
      in case strip_loop (length lines) lines of
           Inl e \<Rightarrow> Inl e
         | Inr lines' \<Rightarrow> Inr (join_nl lines'))"

text \<open>The same result in closed form: drop the blank lines at the end.\<close>

definition blank :: "string \<Rightarrow> bool" where
  "blank l = (length (strip l) = 0)"

definition strip_text :: "string \<Rightarrow> string" where
  "strip_text t = join_nl (rev (dropWhile blank (rev (split_nl t))))"

section \<open>Notebook cells, configuration and translator state\<close>

text \<open>
  A notebook node is a markdown cell, a code cell with its list of outputs, or an output
  record. Only cells carry a \<^verbatim>\<open>cell_type\<close> attribute.
\<close>

datatype nbnode = MarkdownCell string | CodeCell string "nbnode list" | StreamOutput string

datatype JupyterOutputCellGenerators = CODE | MARKDOWN | CODE_OUTPUT

datatype message =
    OutputAfter string
  | MultipleOutputs
  | LanguageNotGiven
  | InvalidHeaders
  | InvalidKernels
  | UnknownHighlightLanguage string
  | InvalidReference

datatype report = Warning message | Error message

text \<open>
  What the translator receives from outside: the builder configuration, the language
  normalizer, the strategy selector, and the results of the two reads done in the
  constructor (the welcome-block file, if one was found on the template paths, and the
  formatted metadata line with its timestamp).
\<close>

record config =
  translate :: "string option \<Rightarrow> string option"
  GetGeneratorFromClasses :: "string list \<Rightarrow> JupyterOutputCellGenerators"
  markdown_source :: "string option \<Rightarrow> string \<Rightarrow> string"
  jupyter_kernels :: "(string \<rightharpoonup> string option) option"
  conf_jupyter_headers :: "(string \<rightharpoonup> nbnode list) option"
  jupyter_write_metadata :: bool
  jupyter_python_autosave :: bool
  welcome_block :: "string option"
  metadata :: string

record state =
  lang :: "string option"
  nodelang :: "string option"
  jupyter_headers :: "(string \<rightharpoonup> nbnode list) option"
  in_code_block :: bool
  output_cell_type :: "JupyterOutputCellGenerators option"
  code_lines :: "string list"
  markdown_lines :: "string list"
  indents :: "nat list"
  section_level :: int
  bullets :: "string list"
  list_item_starts :: "nat list"
  in_topic :: bool
  reference_text_start :: nat
  in_reference :: bool
  list_level :: int
  in_citation :: bool
  cells :: "nbnode list"
  kernelspec :: "string option"
  reports :: "report list"

definition default_lang :: string where
  "default_lang = ''python3''"

definition sep_lines :: string where
  "sep_lines = [CHR '' '', CHR '' '', nl]"

definition sep_paras :: string where
  "sep_paras = [nl, nl]"

definition indent_char :: char where
  "indent_char = CHR '' ''"

definition default_ext :: string where
  "default_ext = ''.ipynb''"

definition warn :: "message \<Rightarrow> state \<Rightarrow> state" where
  "warn m s = s\<lparr>reports := reports s @ [Warning m]\<rparr>"

definition error :: "message \<Rightarrow> state \<Rightarrow> state" where
  "error m s = s\<lparr>reports := reports s @ [Error m]\<rparr>"

definition append_md :: "string \<Rightarrow> state \<Rightarrow> state" where
  "append_md t s = s\<lparr>markdown_lines := markdown_lines s @ [t]\<rparr>"

text \<open>
  Modelled from the spec: \<^verbatim>\<open>JupyterOutputCellGenerators.Generate\<close> (module utils) is
  not part of the sources at hand. Each strategy materializes the text into a notebook
  node: CODE a code cell without outputs, MARKDOWN a markdown cell (its rendering of the
  text for the block's language is the parameter \<^const>\<open>markdown_source\<close>), CODE_OUTPUT
  an output record.
\<close>

definition Generate ::
  "config \<Rightarrow> JupyterOutputCellGenerators \<Rightarrow> string \<Rightarrow> string option \<Rightarrow> nbnode" where
  "Generate cfg g formatted_text nlang =
     (case g of
        CODE \<Rightarrow> CodeCell formatted_text []
      | MARKDOWN \<Rightarrow> MarkdownCell (markdown_source cfg nlang formatted_text)
      | CODE_OUTPUT \<Rightarrow> StreamOutput formatted_text)"

text \<open>The constructors of both classes, \<^verbatim>\<open>JupyterTranslator.__init__\<close> after
  \<^verbatim>\<open>JupyterCodeTranslator.__init__\<close>.\<close>

definition init :: "config \<Rightarrow> error + state" where
  "init cfg =
     (case (if \<not> jupyter_python_autosave cfg
            then (case conf_jupyter_headers cfg of
                    None \<Rightarrow> Inl TypeError
                  | Some h \<Rightarrow> Inr (Some (h(''python3'' \<mapsto> []))))
            else Inr (conf_jupyter_headers cfg)) of
        Inl e \<Rightarrow> Inl e
      | Inr headers \<Rightarrow>
          (case (case welcome_block cfg of
                   None \<Rightarrow> Inr []
                 | Some line_text \<Rightarrow>
                     (case strip_blank_lines_in_end_of_block line_text of
                        Inl e \<Rightarrow> Inl e
                      | Inr formatted \<Rightarrow> Inr [MarkdownCell formatted])) of
             Inl e \<Rightarrow> Inl e
           | Inr cells0 \<Rightarrow>
               Inr \<lparr> lang = None, nodelang = None, jupyter_headers = headers,
                     in_code_block = False, output_cell_type = None, code_lines = [],
                     markdown_lines = [], indents = [], section_level = 0, bullets = [],
                     list_item_starts = [], in_topic = False, reference_text_start = 0,
                     in_reference = False, list_level = 0, in_citation = False,
                     cells = (if jupyter_write_metadata cfg
                              then cells0 @ [MarkdownCell (metadata cfg)] else cells0),
                     kernelspec = None, reports = [] \<rparr>))"

section \<open>The general methods\<close>

definition add_markdown_cell :: "state \<Rightarrow> error + state" where
  "add_markdown_cell s =
     (case strip_blank_lines_in_end_of_block (concat (markdown_lines s)) of
        Inl e \<Rightarrow> Inl e
      | Inr formatted_line_text \<Rightarrow>
          if length (strip formatted_line_text) > 0
          then Inr (s\<lparr>cells := cells s @ [MarkdownCell formatted_line_text],
                      markdown_lines := []\<rparr>)
          else Inr s)"

section \<open>Document tree\<close>

text \<open>
  The node kinds with the attributes the handlers read. For display math the fields are
  the latex source, whether \<^verbatim>\<open>node["ids"]\<close> is non-empty, and \<^verbatim>\<open>str(node["number"])\<close>.
  For a reference they are \<^verbatim>\<open>refuri\<close>, \<^verbatim>\<open>internal\<close> and \<^verbatim>\<open>refid\<close>, each if present;
  for a literal block the classes and the language, if present.
\<close>

datatype nodekind =
    Document
  | Topic
  | Section
  | TextNode string
  | Image string
  | Math string
  | DisplayMath string bool string
  | Raw
  | Paragraph
  | Title
  | Emphasis
  | Strong
  | Figure
  | Reference "string option" "bool option" "string option"
  | Target "string option"
  | BulletList
  | EnumeratedList
  | ListItem
  | DefinitionList
  | Term
  | Definition
  | FieldList
  | FieldName
  | FieldBody
  | Citation "string list option"
  | Label
  | LiteralBlock "string list" "string option"
  | HighlightLang string
  | OtherNode

datatype node = Node nodekind "node list"

section \<open>JupyterCodeTranslator\<close>

definition code_visit_document :: "state \<Rightarrow> state" where
  "code_visit_document s = s\<lparr>lang := Some default_lang\<rparr>"

text \<open>\<^verbatim>\<open>list.insert(i, x)\<close>: an index beyond the end appends.\<close>

definition insert_at :: "nat \<Rightarrow> 'a \<Rightarrow> 'a list \<Rightarrow> 'a list" where
  "insert_at i x xs = take i xs @ [x] @ drop i xs"

definition code_depart_document :: "config \<Rightarrow> state \<Rightarrow> error + state" where
  "code_depart_document cfg s =
     (let s1 = (if lang s = None \<or> lang s = Some []
                then (warn LanguageNotGiven s)\<lparr>lang := Some default_lang\<rparr> else s);
          l = (case lang s1 of Some x \<Rightarrow> x | None \<Rightarrow> default_lang);
          s2 = (case jupyter_headers s1 of
                  None \<Rightarrow> s1
                | Some hs \<Rightarrow>
                    (case hs l of
                       Some hl \<Rightarrow>
                         s1\<lparr>cells :=
                              fold (\<lambda>h cs. if jupyter_write_metadata cfg
                                            then insert_at 1 h cs else insert_at 0 h cs)
                                   (rev hl) (cells s1)\<rparr>
                     | None \<Rightarrow> warn InvalidHeaders s1))
      in case jupyter_kernels cfg of
           None \<Rightarrow> Inr s2
         | Some ks \<Rightarrow>
             (case ks l of
                None \<Rightarrow> Inl KeyError
              | Some entry \<Rightarrow>
                  (case entry of
                     Some spec \<Rightarrow> Inr (s2\<lparr>kernelspec := Some spec\<rparr>)
                   | None \<Rightarrow> Inr (warn InvalidKernels s2))))"

definition visit_highlightlang :: "config \<Rightarrow> string \<Rightarrow> state \<Rightarrow> error + state" where
  "visit_highlightlang cfg attr_lang s =
     (let l = strip attr_lang
      in case jupyter_kernels cfg of
           None \<Rightarrow> Inl TypeError
         | Some ks \<Rightarrow>
             if l \<in> dom ks then Inr (s\<lparr>lang := Some l\<rparr>)
             else Inr ((warn (UnknownHighlightLanguage l) s)\<lparr>lang := Some default_lang\<rparr>))"

definition code_visit_literal_block ::
  "config \<Rightarrow> string list \<Rightarrow> string option \<Rightarrow> state \<Rightarrow> state" where
  "code_visit_literal_block cfg classes language s =
     (let s1 = s\<lparr>output_cell_type := Some (GetGeneratorFromClasses cfg classes)\<rparr>;
          s2 = s1\<lparr>nodelang := (case language of Some l \<Rightarrow> Some (strip l) | None \<Rightarrow> lang s1)\<rparr>;
          s3 = s2\<lparr>nodelang := translate cfg (nodelang s2)\<rparr>;
          s4 = s3\<lparr>in_code_block := True, code_lines := []\<rparr>
      in if nodelang s4 \<noteq> translate cfg (lang s4)
         then s4\<lparr>output_cell_type := Some MARKDOWN\<rparr> else s4)"

definition depart_literal_block :: "config \<Rightarrow> state \<Rightarrow> error + state" where
  "depart_literal_block cfg s =
     (case strip_blank_lines_in_end_of_block (concat (code_lines s)) of
        Inl e \<Rightarrow> Inl e
      | Inr formatted_line_text \<Rightarrow>
          (case output_cell_type s of
             None \<Rightarrow> Inl AttributeError
           | Some g \<Rightarrow>
               (let new_code_cell = Generate cfg g formatted_line_text (nodelang s)
                in case (if g = CODE_OUTPUT
                         then (if cells s = [] then Inl IndexError
                               else (case last (cells s) of
                                       MarkdownCell src \<Rightarrow>
                                         Inr (warn (OutputAfter ''markdown'') s)
                                     | CodeCell src outs \<Rightarrow>
                                         if outs \<noteq> [] then Inr (warn MultipleOutputs s)
                                         else Inr (s\<lparr>cells := butlast (cells s)
                                                     @ [CodeCell src (outs @ [new_code_cell])]\<rparr>)
                                     | StreamOutput t \<Rightarrow> Inl AttributeError))
                         else Inr (s\<lparr>cells := cells s @ [new_code_cell]\<rparr>)) of
                     Inl e \<Rightarrow> Inl e
                   | Inr s' \<Rightarrow> Inr (s'\<lparr>in_code_block := False\<rparr>))))"

section \<open>JupyterTranslator\<close>

definition visit_document :: "state \<Rightarrow> state" where
  "visit_document s = code_visit_document s"

definition depart_document :: "config \<Rightarrow> state \<Rightarrow> error + state" where
  "depart_document cfg s =
     (case add_markdown_cell s of
        Inl e \<Rightarrow> Inl e
      | Inr s' \<Rightarrow> code_depart_document cfg s')"

definition visit_Text :: "string \<Rightarrow> state \<Rightarrow> state" where
  "visit_Text text s =
     (if in_code_block s then s\<lparr>code_lines := code_lines s @ [text]\<rparr>
      else s\<lparr>markdown_lines := markdown_lines s @ [text]\<rparr>)"

definition visit_image :: "string \<Rightarrow> state \<Rightarrow> state" where
  "visit_image uri s = append_md (''!['' @ uri @ '']('' @ uri @ '')'') s"

definition visit_math :: "string \<Rightarrow> state \<Rightarrow> state" where
  "visit_math latex s = append_md (''$ '' @ strip latex @ '' $'') s"

definition visit_displaymath :: "string \<Rightarrow> bool \<Rightarrow> string \<Rightarrow> state \<Rightarrow> state" where
  "visit_displaymath latex has_ids number s =
     (let math_text = strip latex;
          formatted_text = ''$$'' @ [nl] @ math_text @ [nl] @ ''$$'' @ sep_paras;
          formatted_text' =
            ''<table width=100%><tr style='' @ [CHR 0x27] @ ''background-color: #FFFFFF !important;''
              @ [CHR 0x27] @ ''><td width=75%>'' @ formatted_text
              @ ''</td><td width=25% style='' @ [CHR 0x27] @ ''text-align:center !important;''
              @ [CHR 0x27] @ ''>'';
          s1 = append_md formatted_text' s;
          s2 = (if has_ids then append_md (''('' @ number @ '')'') s1 else s1)
      in append_md ''</td></tr></table>'' s2)"

definition depart_paragraph :: "state \<Rightarrow> state" where
  "depart_paragraph s =
     (if list_level s > 0 then append_md sep_lines s else append_md sep_paras s)"

definition visit_title :: "state \<Rightarrow> error + state" where
  "visit_title s =
     (case add_markdown_cell s of
        Inl e \<Rightarrow> Inl e
      | Inr s' \<Rightarrow>
          if in_topic s'
          then Inr (append_md (replicate (nat (section_level s' + 1)) CHR ''#'' @ '' '') s')
          else Inr (append_md (replicate (nat (section_level s')) CHR ''#'' @ '' '') s'))"

definition visit_reference :: "state \<Rightarrow> state" where
  "visit_reference s =
     (let s1 = append_md ''['' (s\<lparr>in_reference := True\<rparr>)
      in s1\<lparr>reference_text_start := length (markdown_lines s1)\<rparr>)"

definition depart_reference ::
  "string option \<Rightarrow> bool option \<Rightarrow> string option \<Rightarrow> state \<Rightarrow> state" where
  "depart_reference refuri internal refid s =
     (let s' =
        (if in_topic s
         then (let uri_text = strip (concat (drop (reference_text_start s) (markdown_lines s)));
                   uri_text' = URI_SPACE_REPLACE uri_text
               in append_md (''](#'' @ uri_text' @ '')'') s)
         else (case refuri of
                 Some u \<Rightarrow>
                   append_md ('']('' @ (if internal = Some True
                                        then add_extension_to_inline_link u default_ext
                                        else u) @ '')'') s
               | None \<Rightarrow>
                   (case refid of
                      Some r \<Rightarrow> append_md ('']('' @ (''#'' @ r) @ '')'') s
                    | None \<Rightarrow> append_md ('']('' @ [] @ '')'') (error InvalidReference s))))
      in s'\<lparr>in_reference := False\<rparr>)"

definition visit_target :: "string option \<Rightarrow> state \<Rightarrow> state" where
  "visit_target refid s =
     (case refid of
        Some r \<Rightarrow> append_md ([nl] @ ''<a id='' @ [CHR 0x27] @ r @ [CHR 0x27] @ ''></a>'' @ [nl]) s
      | None \<Rightarrow> s)"

definition visit_bullet_list :: "state \<Rightarrow> state" where
  "visit_bullet_list s =
     (let s1 = s\<lparr>list_level := list_level s + 1\<rparr>;
          s2 = s1\<lparr>bullets := bullets s1 @ [''-'']\<rparr>
      in s2\<lparr>indents := indents s2 @ [length (last (bullets s2)) + 1]\<rparr>)"

definition depart_bullet_list :: "state \<Rightarrow> error + state" where
  "depart_bullet_list s =
     (let s1 = s\<lparr>list_level := list_level s - 1\<rparr>
      in case (if list_level s1 = 0
               then (let s2 = append_md sep_paras s1
                     in if in_topic s2 then add_markdown_cell s2 else Inr s2)
               else Inr s1) of
           Inl e \<Rightarrow> Inl e
         | Inr s3 \<Rightarrow>
             if bullets s3 = [] then Inl IndexError
             else if indents s3 = [] then Inl IndexError
             else Inr (s3\<lparr>bullets := butlast (bullets s3), indents := butlast (indents s3)\<rparr>))"

definition visit_enumerated_list :: "state \<Rightarrow> state" where
  "visit_enumerated_list s =
     (let s1 = s\<lparr>list_level := list_level s + 1\<rparr>;
          s2 = s1\<lparr>bullets := bullets s1 @ [''1.'']\<rparr>
      in s2\<lparr>indents := indents s2 @ [length (last (bullets s2)) + 1]\<rparr>)"

definition depart_enumerated_list :: "state \<Rightarrow> error + state" where
  "depart_enumerated_list s =
     (let s1 = s\<lparr>list_level := list_level s - 1\<rparr>;
          s3 = (if list_level s1 = 0 then append_md sep_paras s1 else s1)
      in if bullets s3 = [] then Inl IndexError
         else if indents s3 = [] then Inl IndexError
         else Inr (s3\<lparr>bullets := butlast (bullets s3), indents := butlast (indents s3)\<rparr>))"

definition visit_list_item :: "state \<Rightarrow> error + state" where
  "visit_list_item s =
     (if bullets s = [] then Inl IndexError
      else (let head = last (bullets s) @ '' '';
                s1 = append_md head s
            in Inr (s1\<lparr>list_item_starts := list_item_starts s1 @ [length (markdown_lines s1)]\<rparr>)))"

definition depart_list_item :: "state \<Rightarrow> error + state" where
  "depart_list_item s =
     (if list_item_starts s = [] then Inl IndexError
      else (let list_item_start = last (list_item_starts s);
                s1 = s\<lparr>list_item_starts := butlast (list_item_starts s)\<rparr>
            in if indents s1 = [] then Inl IndexError
               else (let indent = replicate (last (indents s1)) indent_char
                     in if markdown_lines s1 = [] then Inl IndexError
                        else if last (markdown_lines s1) = [] then Inl IndexError
                        else (let br_removed_flag = (last (last (markdown_lines s1)) = nl);
                                  lines1 = (if br_removed_flag
                                            then butlast (markdown_lines s1)
                                                 @ [butlast (last (markdown_lines s1))]
                                            else markdown_lines s1);
                                  lines2 = take list_item_start lines1
                                           @ map (replace_nl indent) (drop list_item_start lines1);
                                  lines3 = (if br_removed_flag then lines2 @ [[nl]] else lines2)
                              in Inr (s1\<lparr>markdown_lines := lines3\<rparr>)))))"

definition visit_definition_list :: "state \<Rightarrow> state" where
  "visit_definition_list s =
     append_md ([nl] @ ''<dl style='' @ [CHR 0x27] @ ''margin: 20px 0;'' @ [CHR 0x27] @ ''>'' @ [nl]) s"

definition depart_definition_list :: "state \<Rightarrow> state" where
  "depart_definition_list s = append_md ([nl] @ ''</dl>'' @ sep_paras) s"

definition visit_term :: "state \<Rightarrow> state" where
  "visit_term s = append_md ''<dt>'' s"

definition depart_term :: "state \<Rightarrow> state" where
  "depart_term s = append_md (''</dt>'' @ [nl]) s"

definition visit_definition :: "state \<Rightarrow> state" where
  "visit_definition s = append_md (''<dd>'' @ [nl]) s"

definition depart_definition :: "state \<Rightarrow> state" where
  "depart_definition s = append_md (''</dd>'' @ [nl]) s"

definition visit_citation :: "string list option \<Rightarrow> state \<Rightarrow> state" where
  "visit_citation ids s =
     (let s1 = s\<lparr>in_citation := True\<rparr>
      in case ids of
           None \<Rightarrow> s1
         | Some is \<Rightarrow>
             (let id_text = butlast (concat (map (\<lambda>i. i @ '' '') is))
              in append_md (''<a id='' @ [CHR 0x27] @ id_text @ [CHR 0x27] @ ''></a>'' @ [nl]) s1))"

definition visit_label :: "state \<Rightarrow> state" where
  "visit_label s = (if in_citation s then append_md [CHR 0x5C, CHR ''[''] s else s)"

definition depart_label :: "state \<Rightarrow> state" where
  "depart_label s = (if in_citation s then append_md [CHR 0x5C, CHR '']'', CHR '' ''] s else s)"

definition visit_literal_block ::
  "config \<Rightarrow> string list \<Rightarrow> string option \<Rightarrow> state \<Rightarrow> error + state" where
  "visit_literal_block cfg classes language s =
     (let s1 = code_visit_literal_block cfg classes language s
      in if in_code_block s1 then add_markdown_cell s1 else Inr s1)"

section \<open>Dispatch and traversal\<close>

text \<open>
  \<^verbatim>\<open>dispatch_visit\<close> and \<^verbatim>\<open>dispatch_departure\<close> of the generic node visitor: the method
  named after the node's kind if the translator has one, the no-op default otherwise.
\<close>

fun visit :: "config \<Rightarrow> nodekind \<Rightarrow> state \<Rightarrow> error + state" where
  "visit cfg Document s = Inr (visit_document s)"
| "visit cfg Topic s = Inr (s\<lparr>in_topic := True\<rparr>)"
| "visit cfg Section s = Inr (s\<lparr>section_level := section_level s + 1\<rparr>)"
| "visit cfg (TextNode t) s = Inr (visit_Text t s)"
| "visit cfg (Image uri) s = Inr (visit_image uri s)"
| "visit cfg (Math latex) s = Inr (visit_math latex s)"
| "visit cfg (DisplayMath latex has_ids number) s = Inr (visit_displaymath latex has_ids number s)"
| "visit cfg Title s = visit_title s"
| "visit cfg Emphasis s = Inr (append_md ''*'' s)"
| "visit cfg Strong s = Inr (append_md ''**'' s)"
| "visit cfg (Reference refuri internal refid) s = Inr (visit_reference s)"
| "visit cfg (Target refid) s = Inr (visit_target refid s)"
| "visit cfg BulletList s = Inr (visit_bullet_list s)"
| "visit cfg EnumeratedList s = Inr (visit_enumerated_list s)"
| "visit cfg ListItem s = visit_list_item s"
| "visit cfg DefinitionList s = Inr (visit_definition_list s)"
| "visit cfg Term s = Inr (visit_term s)"
| "visit cfg Definition s = Inr (visit_definition s)"
| "visit cfg FieldList s = Inr (visit_definition_list s)"
| "visit cfg FieldName s = Inr (visit_term s)"
| "visit cfg FieldBody s = Inr (visit_definition s)"
| "visit cfg (Citation ids) s = Inr (visit_citation ids s)"
| "visit cfg Label s = Inr (visit_label s)"
| "visit cfg (LiteralBlock classes language) s = visit_literal_block cfg classes language s"
| "visit cfg (HighlightLang l) s = visit_highlightlang cfg l s"
| "visit cfg Raw s = Inr s"
| "visit cfg Paragraph s = Inr s"
| "visit cfg Figure s = Inr s"
| "visit cfg OtherNode s = Inr s"

fun depart :: "config \<Rightarrow> nodekind \<Rightarrow> state \<Rightarrow> error + state" where
  "depart cfg Document s = depart_document cfg s"
| "depart cfg Topic s = Inr (s\<lparr>in_topic := False\<rparr>)"
| "depart cfg Section s = Inr (s\<lparr>section_level := section_level s - 1\<rparr>)"
| "depart cfg (TextNode t) s = Inr s"
| "depart cfg Paragraph s = Inr (depart_paragraph s)"
| "depart cfg Title s = Inr (append_md sep_paras s)"
| "depart cfg Emphasis s = Inr (append_md ''*'' s)"
| "depart cfg Strong s = Inr (append_md ''**'' s)"
| "depart cfg Figure s = Inr (append_md sep_lines s)"
| "depart cfg (Reference refuri internal refid) s = Inr (depart_reference refuri internal refid s)"
| "depart cfg BulletList s = depart_bullet_list s"
| "depart cfg EnumeratedList s = depart_enumerated_list s"
| "depart cfg ListItem s = depart_list_item s"
| "depart cfg DefinitionList s = Inr (depart_definition_list s)"
| "depart cfg Term s = Inr (depart_term s)"
| "depart cfg Definition s = Inr (depart_definition s)"
| "depart cfg FieldList s = Inr (depart_definition_list s)"
| "depart cfg FieldName s = Inr (depart_term s)"
| "depart cfg FieldBody s = Inr (depart_definition s)"
| "depart cfg (Citation ids) s = Inr (s\<lparr>in_citation := False\<rparr>)"
| "depart cfg Label s = Inr (depart_label s)"
| "depart cfg (LiteralBlock classes language) s = depart_literal_block cfg s"
| "depart cfg (Image uri) s = Inr s"
| "depart cfg (Math latex) s = Inr s"
| "depart cfg (DisplayMath latex has_ids number) s = Inr s"
| "depart cfg (Target refid) s = Inr s"
| "depart cfg (HighlightLang l) s = Inr s"
| "depart cfg Raw s = Inr s"
| "depart cfg OtherNode s = Inr s"

datatype event = Visit nodekind | Depart nodekind

text \<open>
  The traversal engine is the \<^verbatim>\<open>walkabout\<close> of the docutils library, external to the
  translators. It walks the tree depth first, calling the visit handler of a node before
  its children and the depart handler after them; an exception raised by a handler ends
  the walk.
\<close>

fun events_of :: "node \<Rightarrow> event list" where
  "events_of (Node k children) = Visit k # concat (map events_of children) @ [Depart k]"

fun handle :: "config \<Rightarrow> event \<Rightarrow> state \<Rightarrow> error + state" where
  "handle cfg (Visit k) s = visit cfg k s"
| "handle cfg (Depart k) s = depart cfg k s"

fun run :: "config \<Rightarrow> event list \<Rightarrow> state \<Rightarrow> error + state" where
  "run cfg [] s = Inr s"
| "run cfg (e # es) s = (case handle cfg e s of Inl err \<Rightarrow> Inl err | Inr s' \<Rightarrow> run cfg es s')"

definition walkabout :: "config \<Rightarrow> node \<Rightarrow> state \<Rightarrow> error + state" where
  "walkabout cfg n s = run cfg (events_of n) s"

definition translate_document :: "config \<Rightarrow> node \<Rightarrow> error + state" where
  "translate_document cfg n = (case init cfg of Inl e \<Rightarrow> Inl e | Inr s \<Rightarrow> walkabout cfg n s)"

section \<open>Closed forms and example inputs\<close>

text \<open>The effect of \<^const>\<open>add_markdown_cell\<close> written with \<^const>\<open>strip_text\<close>: join the
  buffer, strip the blank lines at the end, and, if what is left is not blank, append it
  as a markdown cell and reset the buffer; otherwise leave the state as it is.\<close>

definition flushed :: "state \<Rightarrow> state" where
  "flushed s =
     (let t = strip_text (concat (markdown_lines s))
      in if strip t \<noteq> []
         then s\<lparr>cells := cells s @ [MarkdownCell t], markdown_lines := []\<rparr>
         else s)"

text \<open>The events of one literal block whose children are text nodes.\<close>

definition text_events :: "string list \<Rightarrow> event list" where
  "text_events ts = concat (map (\<lambda>t. [Visit (TextNode t), Depart (TextNode t)]) ts)"

definition literal_block_node :: "string list \<times> string option \<times> string list \<Rightarrow> node" where
  "literal_block_node b =
     (case b of (classes, language, texts) \<Rightarrow>
        Node (LiteralBlock classes language) (map (\<lambda>t. Node (TextNode t) []) texts))"

text \<open>A configuration for the examples: the identity as language normalizer, the class
  \<^verbatim>\<open>output\<close> selecting CODE_OUTPUT and every other block CODE, one python3 kernel.\<close>

definition example_config :: config where
  "example_config =
     \<lparr> translate = (\<lambda>l. l),
       GetGeneratorFromClasses = (\<lambda>cs. if ''output'' \<in> set cs then CODE_OUTPUT else CODE),
       markdown_source = (\<lambda>l t. t),
       jupyter_kernels = Some [''python3'' \<mapsto> Some ''python3''],
       conf_jupyter_headers = Some Map.empty,
       jupyter_write_metadata = False,
       jupyter_python_autosave = False,
       welcome_block = None,
       metadata = ''Notebook created'' \<rparr>"

text \<open>The state the constructors build for a configuration without welcome block and
  without metadata cell, after \<^const>\<open>visit_document\<close>.\<close>

definition example_state :: state where
  "example_state =
     \<lparr> lang = Some ''python3'', nodelang = None, jupyter_headers = Some [''python3'' \<mapsto> []],
       in_code_block = False, output_cell_type = None, code_lines = [],
       markdown_lines = [], indents = [], section_level = 0, bullets = [],
       list_item_starts = [], in_topic = False, reference_text_start = 0,
       in_reference = False, list_level = 0, in_citation = False,
       cells = [], kernelspec = None, reports = [] \<rparr>"



text \<open>A node of the cell stream is a cell (not an output record), and a code cell
  carries at most one output.\<close>

fun is_cell :: "nbnode \<Rightarrow> bool" where
  "is_cell (StreamOutput t) = False"
| "is_cell c = True"

fun at_most_one_output :: "nbnode \<Rightarrow> bool" where
  "at_most_one_output (CodeCell src outs) = (length outs \<le> 1)"
| "at_most_one_output c = True"

definition well_formed_cells :: "nbnode list \<Rightarrow> bool" where
  "well_formed_cells cs = (cs \<noteq> [] \<and> list_all (\<lambda>c. is_cell c \<and> at_most_one_output c) cs)"

text \<open>The header cells the translator holds for the document language.\<close>

definition headers_for :: "state \<Rightarrow> nbnode list" where
  "headers_for s =
     (case jupyter_headers s of
        None \<Rightarrow> []
      | Some hs \<Rightarrow>
          (case hs (case lang s of Some x \<Rightarrow> x | None \<Rightarrow> default_lang) of
             None \<Rightarrow> []
           | Some hl \<Rightarrow> hl))"

text \<open>Configurations with the metadata cell, with two header cells for python3, and with a
  welcome block in addition.\<close>

definition metadata_config :: config where
  "metadata_config =
     example_config\<lparr>jupyter_write_metadata := True, jupyter_python_autosave := True,
       conf_jupyter_headers :=
         Some [''python3'' \<mapsto> [CodeCell ''%autosave 0'' [], CodeCell ''import numpy'' []]]\<rparr>"

definition welcome_config :: config where
  "welcome_config = metadata_config\<lparr>welcome_block := Some ''Welcome''\<rparr>"

section \<open>Lemmas on the string primitives\<close>





lemma strip_loop_length: "strip_loop (length ls) ls = Inr (rev (dropWhile blank (rev ls)))"
  by (induction ls rule: rev_induct) (simp_all add: blank_def)

lemma strip_blank_lines_closed: "strip_blank_lines_in_end_of_block t = Inr (strip_text t)"
  by (simp add: strip_blank_lines_in_end_of_block_def strip_text_def strip_loop_length)







section \<open>Properties of inline links\<close>

lemma takeWhile_absent: "c \<notin> set xs \<Longrightarrow> takeWhile (\<lambda>x. x \<noteq> c) xs = xs"
  by (induction xs) auto

lemma dropWhile_absent: "c \<notin> set xs \<Longrightarrow> dropWhile (\<lambda>x. x \<noteq> c) xs = []"
  by (induction xs) auto

text \<open>
  C8: \<^verbatim>\<open>add_extension_to_inline_link("page#sec", ".ipynb")\<close> is \<^verbatim>\<open>"page.ipynb#sec"\<close>;
  the already-extensioned \<^verbatim>\<open>"page.html#sec"\<close> comes back unchanged; every URI that
  contains a dot comes back unchanged, and applying the function to such an output again
  changes nothing.
\<close>

theorem add_extension_example_and_idempotent:
  "add_extension_to_inline_link ''page#sec'' ''.ipynb'' = ''page.ipynb#sec''
   \<and> add_extension_to_inline_link ''page.html#sec'' ''.ipynb'' = ''page.html#sec''
   \<and> (\<forall>uri ext. CHR ''.'' \<in> set uri \<longrightarrow>
          add_extension_to_inline_link uri ext = uri
          \<and> add_extension_to_inline_link (add_extension_to_inline_link uri ext) ext
              = add_extension_to_inline_link uri ext)"
  by (simp add: add_extension_to_inline_link_def split_uri_id_def nl_def)

theorem add_extension_example_and_idempotent_witness:
  "CHR ''.'' \<in> set ''a.b''
   \<and> add_extension_to_inline_link ''a.b'' ''.ipynb'' = ''a.b''
   \<and> add_extension_to_inline_link (add_extension_to_inline_link ''a.b'' ''.ipynb'') ''.ipynb''
       = add_extension_to_inline_link ''a.b'' ''.ipynb''"
  using add_extension_example_and_idempotent by simp

text \<open>
  C9: for a URI with neither a dot nor a hash the result is the URI, the extension and a
  trailing hash; \<^verbatim>\<open>add_extension_to_inline_link("page", ".ipynb")\<close> is \<^verbatim>\<open>"page.ipynb#"\<close>.
\<close>

theorem add_extension_trailing_hash:
  "(\<forall>uri ext. CHR ''.'' \<notin> set uri \<and> CHR ''#'' \<notin> set uri \<longrightarrow>
      add_extension_to_inline_link uri ext = uri @ ext @ ''#'')
   \<and> add_extension_to_inline_link ''page'' ''.ipynb'' = ''page.ipynb#''"
  by (auto simp: add_extension_to_inline_link_def split_uri_id_def takeWhile_absent dropWhile_absent)

theorem add_extension_trailing_hash_witness:
  "CHR ''.'' \<notin> set ''index'' \<and> CHR ''#'' \<notin> set ''index''
   \<and> add_extension_to_inline_link ''index'' ''.ipynb'' = ''index.ipynb#''"
  using add_extension_trailing_hash by simp

section \<open>List items\<close>

lemma empty_text_item_raises:
  "\<not> in_code_block s \<Longrightarrow>
     walkabout cfg (Node BulletList [Node ListItem [Node (TextNode []) []]]) s = Inl IndexError"
  by (simp add: walkabout_def visit_bullet_list_def visit_list_item_def append_md_def
      visit_Text_def depart_list_item_def Let_def)

text \<open>
  C10: when a list item closes and the last fragment of the markdown buffer is the empty
  string, \<^const>\<open>depart_list_item\<close> raises IndexError and the traversal stops with it,
  whatever events would follow. A list item whose only child is an empty text node is
  such a case.
\<close>

theorem depart_list_item_empty_fragment_raises:
  "(markdown_lines s \<noteq> [] \<and> last (markdown_lines s) = [] \<longrightarrow>
      depart_list_item s = Inl IndexError
      \<and> run cfg (Depart ListItem # rest) s = Inl IndexError)
   \<and> (\<not> in_code_block s0 \<longrightarrow>
        walkabout cfg (Node BulletList [Node ListItem [Node (TextNode []) []]]) s0
          = Inl IndexError)"
  by (simp add: depart_list_item_def Let_def empty_text_item_raises)

theorem depart_list_item_empty_fragment_raises_witness:
  "depart_list_item (example_state\<lparr>markdown_lines := [''- '', []]\<rparr>) = Inl IndexError
   \<and> run example_config [Depart ListItem, Depart BulletList]
         (example_state\<lparr>markdown_lines := [''- '', []]\<rparr>) = Inl IndexError
   \<and> walkabout example_config (Node BulletList [Node ListItem [Node (TextNode []) []]])
         example_state = Inl IndexError"
  using depart_list_item_empty_fragment_raises
    [of "example_state\<lparr>markdown_lines := [''- '', []]\<rparr>" example_config "[Depart BulletList]"
        example_state]
  by (simp add: example_state_def)







section \<open>References inside a topic\<close>

lemma add_markdown_cell_flushed: "add_markdown_cell s = Inr (flushed s)"
  by (simp add: add_markdown_cell_def flushed_def strip_blank_lines_closed Let_def)

lemma URI_SPACE_REPLACE_length: "length (URI_SPACE_REPLACE t) = length t"
  by (simp add: URI_SPACE_REPLACE_def)

lemma URI_SPACE_REPLACE_nth:
  "i < length t \<Longrightarrow>
     URI_SPACE_REPLACE t ! i = (if is_space (t ! i) then CHR ''-'' else t ! i)"
  by (simp add: URI_SPACE_REPLACE_def)

lemma depart_reference_topic:
  "in_topic s \<Longrightarrow>
     depart_reference refuri internal refid s =
       s\<lparr>markdown_lines := markdown_lines s
            @ [''](#'' @ URI_SPACE_REPLACE
                 (strip (concat (drop (reference_text_start s) (markdown_lines s)))) @ '')''],
         in_reference := False\<rparr>"
  by (simp add: depart_reference_def Let_def append_md_def)

lemma reference_example:
  "in_topic s \<Longrightarrow> \<not> in_code_block s \<Longrightarrow>
     \<exists>s'. walkabout cfg (Node (Reference refuri internal refid) [Node (TextNode ''Foo Bar'') []]) s = Inr s'
        \<and> markdown_lines s' = markdown_lines s @ [''['', ''Foo Bar'', ''](#Foo-Bar)'']"
  by (simp add: walkabout_def visit_reference_def depart_reference_def Let_def append_md_def
      visit_Text_def strip_def is_space_def URI_SPACE_REPLACE_def)

text \<open>
  C5, as stated, fails where the label has a run of whitespace: the label
  \<^verbatim>\<open>Foo  Bar\<close> with two spaces gets the target \<^verbatim>\<open>#Foo--Bar\<close> with two hyphens, the run
  is not collapsed to one hyphen.
\<close>

theorem reference_whitespace_run_counterexample:
  "(case walkabout example_config
           (Node (Reference None None None) [Node (TextNode ''Foo  Bar'') []])
           (example_state\<lparr>in_topic := True\<rparr>) of
      Inr s' \<Rightarrow> markdown_lines s'
    | Inl e \<Rightarrow> []) = [''['', ''Foo  Bar'', ''](#Foo--Bar)'']"
  by (simp add: walkabout_def visit_reference_def depart_reference_def Let_def append_md_def
      visit_Text_def strip_def is_space_def URI_SPACE_REPLACE_def example_state_def)

text \<open>
  C5, amended: for a reference closed inside a topic the fragment appended is
  \<^verbatim>\<open>](#\<close>, the label and \<^verbatim>\<open>)\<close>, where the label is the text appended since the
  reference's start mark, stripped, with every single whitespace character replaced by
  one hyphen and every other character (and so the case) kept: the label keeps its
  length. The label text \<^verbatim>\<open>Foo Bar\<close> gives \<^verbatim>\<open>[Foo Bar](#Foo-Bar)\<close>.
\<close>

theorem depart_reference_topic_target:
  "(in_topic s \<longrightarrow>
      depart_reference refuri internal refid s =
        s\<lparr>markdown_lines := markdown_lines s
             @ [''](#'' @ URI_SPACE_REPLACE
                  (strip (concat (drop (reference_text_start s) (markdown_lines s)))) @ '')''],
          in_reference := False\<rparr>)
   \<and> length (URI_SPACE_REPLACE t) = length t
   \<and> (\<forall>i < length t.
         URI_SPACE_REPLACE t ! i = (if is_space (t ! i) then CHR ''-'' else t ! i))
   \<and> (in_topic s \<and> \<not> in_code_block s \<longrightarrow>
        (\<exists>s'. walkabout cfg
                (Node (Reference refuri internal refid) [Node (TextNode ''Foo Bar'') []]) s
                = Inr s'
             \<and> markdown_lines s' = markdown_lines s @ [''['', ''Foo Bar'', ''](#Foo-Bar)'']))"
  by (simp add: depart_reference_topic URI_SPACE_REPLACE_length URI_SPACE_REPLACE_nth
      reference_example)

theorem depart_reference_topic_target_witness:
  "depart_reference None None None
     (example_state\<lparr>in_topic := True, markdown_lines := [''- '', ''['', ''Foo Bar''],
        reference_text_start := 2\<rparr>)
     = example_state\<lparr>in_topic := True,
         markdown_lines := [''- '', ''['', ''Foo Bar'', ''](#Foo-Bar)''],
         reference_text_start := 2\<rparr>
   \<and> (\<exists>s'. walkabout example_config
               (Node (Reference None None None) [Node (TextNode ''Foo Bar'') []])
               (example_state\<lparr>in_topic := True\<rparr>) = Inr s'
         \<and> markdown_lines s' = [''['', ''Foo Bar'', ''](#Foo-Bar)''])"
  using depart_reference_topic_target
    [of "example_state\<lparr>in_topic := True, markdown_lines := [''- '', ''['', ''Foo Bar''],
        reference_text_start := 2\<rparr>" None None None "[]" example_config]
    depart_reference_topic_target
    [of "example_state\<lparr>in_topic := True\<rparr>" None None None "[]" example_config]
  by (simp add: example_state_def strip_def is_space_def URI_SPACE_REPLACE_def)

section \<open>Code blocks\<close>

lemma run_append:
  "run cfg (es1 @ es2) s = (case run cfg es1 s of Inl e \<Rightarrow> Inl e | Inr s' \<Rightarrow> run cfg es2 s')"
  by (induction es1 arbitrary: s) (auto split: sum.splits)

lemma run_text_events_code:
  "in_code_block s \<Longrightarrow> run cfg (text_events ts) s = Inr (s\<lparr>code_lines := code_lines s @ ts\<rparr>)"
proof (induction ts arbitrary: s)
  case Nil
  then show ?case by (simp add: text_events_def)
next
  case (Cons t ts)
  have "run cfg (text_events (t # ts)) s = run cfg (text_events ts) (visit_Text t s)"
    by (simp add: text_events_def)
  also have "\<dots> = Inr ((visit_Text t s)\<lparr>code_lines := code_lines (visit_Text t s) @ ts\<rparr>)"
    using Cons.prems by (intro Cons.IH) (simp add: visit_Text_def)
  finally show ?case using Cons.prems by (simp add: visit_Text_def)
qed

lemma events_of_literal_block_node:
  "events_of (literal_block_node (classes, language, texts)) =
     Visit (LiteralBlock classes language) # text_events texts @ [Depart (LiteralBlock classes language)]"
  by (simp add: literal_block_node_def text_events_def comp_def)

lemma code_visit_in_code_block: "in_code_block (code_visit_literal_block cfg classes language s)"
  by (simp add: code_visit_literal_block_def Let_def)

lemma visit_literal_block_flushed:
  "visit_literal_block cfg classes language s =
     Inr (flushed (code_visit_literal_block cfg classes language s))"
  by (simp add: visit_literal_block_def Let_def code_visit_in_code_block add_markdown_cell_flushed)

lemma flushed_fields:
  "in_code_block (flushed s) = in_code_block s"
  "output_cell_type (flushed s) = output_cell_type s"
  "code_lines (flushed s) = code_lines s"
  "nodelang (flushed s) = nodelang s"
  "lang (flushed s) = lang s"
  "reports (flushed s) = reports s"
  by (simp_all add: flushed_def Let_def)

lemma code_visit_fields:
  "cells (code_visit_literal_block cfg classes language s) = cells s"
  "markdown_lines (code_visit_literal_block cfg classes language s) = markdown_lines s"
  "code_lines (code_visit_literal_block cfg classes language s) = []"
  "lang (code_visit_literal_block cfg classes language s) = lang s"
  "reports (code_visit_literal_block cfg classes language s) = reports s"
  by (simp_all add: code_visit_literal_block_def Let_def)

lemma flushed_cong:
  "cells s1 = cells s2 \<Longrightarrow> markdown_lines s1 = markdown_lines s2 \<Longrightarrow>
     cells (flushed s1) = cells (flushed s2) \<and> markdown_lines (flushed s1) = markdown_lines (flushed s2)"
  by (simp add: flushed_def Let_def)

lemma walk_literal_block:
  "walkabout cfg (literal_block_node (classes, language, texts)) s =
     depart_literal_block cfg
       ((flushed (code_visit_literal_block cfg classes language s))\<lparr>code_lines := texts\<rparr>)"
  by (simp add: walkabout_def events_of_literal_block_node visit_literal_block_flushed run_append
      run_text_events_code flushed_fields code_visit_in_code_block code_visit_fields
      split: sum.splits)

lemma foreign_strategy:
  "translate cfg (Some (strip l)) \<noteq> translate cfg (lang s) \<Longrightarrow>
     output_cell_type (code_visit_literal_block cfg classes (Some l) s) = Some MARKDOWN
     \<and> nodelang (code_visit_literal_block cfg classes (Some l) s) = translate cfg (Some (strip l))"
  by (simp add: code_visit_literal_block_def Let_def)

lemma foreign_block_cell:
  assumes "translate cfg (Some (strip l)) \<noteq> translate cfg (lang s)"
  shows "\<exists>s'. walkabout cfg (literal_block_node (classes, Some l, texts)) s = Inr s'
           \<and> cells s' = cells (flushed s)
                @ [MarkdownCell (markdown_source cfg (translate cfg (Some (strip l)))
                     (strip_text (concat texts)))]
           \<and> markdown_lines s' = markdown_lines (flushed s)
           \<and> reports s' = reports s"
  using foreign_strategy[OF assms, of classes]
    flushed_cong[of "code_visit_literal_block cfg classes (Some l) s" s]
  by (simp add: walk_literal_block depart_literal_block_def strip_blank_lines_closed flushed_fields
      Generate_def code_visit_fields)

lemma foreign_block_code_translator:
  assumes "translate cfg (Some (strip l)) \<noteq> translate cfg (lang s)"
  shows "\<exists>s'. depart_literal_block cfg
             ((code_visit_literal_block cfg classes (Some l) s)\<lparr>code_lines := texts\<rparr>) = Inr s'
           \<and> cells s' = cells s
                @ [MarkdownCell (markdown_source cfg (translate cfg (Some (strip l)))
                     (strip_text (concat texts)))]"
  using foreign_strategy[OF assms, of classes]
  by (simp add: depart_literal_block_def strip_blank_lines_closed Generate_def code_visit_fields)

lemma flushed_cells_cases:
  "cells (flushed s) = cells s \<or> (\<exists>b. cells (flushed s) = cells s @ [MarkdownCell b])"
  by (simp add: flushed_def Let_def)

text \<open>
  C1: a literal block whose declared language, stripped and normalized, differs from the
  normalized document language gets the MARKDOWN strategy whatever its classes are. In
  the code translator its exit appends one markdown cell; in the full translator the
  walk over the block flushes the pending markdown buffer and then appends that markdown
  cell, so every cell appended is a markdown cell and none is a code cell. A block
  declared \<^verbatim>\<open>bash\<close> in a \<^verbatim>\<open>python3\<close> document yields a markdown cell, also when it
  carries the class \<^verbatim>\<open>output\<close>.
\<close>

theorem foreign_language_block_is_markdown:
  "(translate cfg (Some (strip l)) \<noteq> translate cfg (lang s) \<longrightarrow>
      output_cell_type (code_visit_literal_block cfg classes (Some l) s) = Some MARKDOWN
      \<and> (\<exists>s'. depart_literal_block cfg
                 ((code_visit_literal_block cfg classes (Some l) s)\<lparr>code_lines := texts\<rparr>)
               = Inr s'
            \<and> cells s' = cells s
                 @ [MarkdownCell (markdown_source cfg (translate cfg (Some (strip l)))
                      (strip_text (concat texts)))])
      \<and> (\<exists>s'. walkabout cfg (literal_block_node (classes, Some l, texts)) s = Inr s'
            \<and> cells s' = cells (flushed s)
                 @ [MarkdownCell (markdown_source cfg (translate cfg (Some (strip l)))
                      (strip_text (concat texts)))]
            \<and> markdown_lines s' = markdown_lines (flushed s)
            \<and> reports s' = reports s)
      \<and> (cells (flushed s) = cells s \<or> (\<exists>b. cells (flushed s) = cells s @ [MarkdownCell b])))
   \<and> (\<exists>s'. walkabout example_config
               (literal_block_node ([''output''], Some ''bash'', [''echo hi''])) example_state
             = Inr s'
         \<and> cells s' = [MarkdownCell ''echo hi''])"
proof (intro conjI impI)
  assume f: "translate cfg (Some (strip l)) \<noteq> translate cfg (lang s)"
  show "output_cell_type (code_visit_literal_block cfg classes (Some l) s) = Some MARKDOWN"
    using foreign_strategy[OF f] by simp
  show "\<exists>s'. depart_literal_block cfg
                 ((code_visit_literal_block cfg classes (Some l) s)\<lparr>code_lines := texts\<rparr>)
               = Inr s'
            \<and> cells s' = cells s
                 @ [MarkdownCell (markdown_source cfg (translate cfg (Some (strip l)))
                      (strip_text (concat texts)))]"
    using foreign_block_code_translator[OF f] .
  show "\<exists>s'. walkabout cfg (literal_block_node (classes, Some l, texts)) s = Inr s'
            \<and> cells s' = cells (flushed s)
                 @ [MarkdownCell (markdown_source cfg (translate cfg (Some (strip l)))
                      (strip_text (concat texts)))]
            \<and> markdown_lines s' = markdown_lines (flushed s)
            \<and> reports s' = reports s"
    using foreign_block_cell[OF f] .
  show "cells (flushed s) = cells s \<or> (\<exists>b. cells (flushed s) = cells s @ [MarkdownCell b])"
    by (rule flushed_cells_cases)
next
  have f: "translate example_config (Some (strip ''bash'')) \<noteq> translate example_config (lang example_state)"
    by (simp add: example_config_def example_state_def strip_def is_space_def)
  show "\<exists>s'. walkabout example_config
               (literal_block_node ([''output''], Some ''bash'', [''echo hi''])) example_state
             = Inr s'
         \<and> cells s' = [MarkdownCell ''echo hi'']"
    using foreign_block_cell[OF f, of "[''output'']" "[''echo hi'']"]
    by (auto simp: example_config_def example_state_def strip_def is_space_def strip_text_def
        blank_def flushed_def nl_def)
qed

theorem foreign_language_block_is_markdown_witness:
  "output_cell_type
     (code_visit_literal_block example_config [] (Some ''bash'') example_state)
     = Some MARKDOWN
   \<and> (\<exists>s'. walkabout example_config
               (literal_block_node ([], Some ''bash'', [''ls'', [nl]]))
               (example_state\<lparr>markdown_lines := [''Run:'', [nl, nl]]\<rparr>) = Inr s'
         \<and> cells s' = [MarkdownCell ''Run:'', MarkdownCell ''ls'']
         \<and> markdown_lines s' = [])"
  using foreign_language_block_is_markdown
    [of example_config "''bash''" example_state "[]"]
    foreign_language_block_is_markdown
    [of example_config "''bash''" "example_state\<lparr>markdown_lines := [''Run:'', [nl, nl]]\<rparr>"
        "[]" "[''ls'', [nl]]"]
  by (auto simp: example_config_def example_state_def strip_def is_space_def strip_text_def
      blank_def flushed_def nl_def)

section \<open>Output blocks\<close>

lemma well_formed_flushed: "well_formed_cells (cells s) \<Longrightarrow> well_formed_cells (cells (flushed s))"
  by (simp add: flushed_def Let_def well_formed_cells_def)

lemma well_formed_butlast_snoc:
  assumes "well_formed_cells cs" and "is_cell c" and "at_most_one_output c"
  shows "well_formed_cells (butlast cs @ [c])"
  using assms by (auto simp: well_formed_cells_def list_all_iff dest: in_set_butlastD)

lemma well_formed_last: "well_formed_cells cs \<Longrightarrow> is_cell (last cs)"
  by (auto simp: well_formed_cells_def list_all_iff)

lemma depart_literal_block_well_formed:
  assumes g: "output_cell_type s = Some g" and wf: "well_formed_cells (cells s)"
  shows "\<exists>s'. depart_literal_block cfg s = Inr s' \<and> well_formed_cells (cells s')"
proof (cases g)
  case CODE
  with g wf show ?thesis
    by (simp add: depart_literal_block_def strip_blank_lines_closed Generate_def well_formed_cells_def)
next
  case MARKDOWN
  with g wf show ?thesis
    by (simp add: depart_literal_block_def strip_blank_lines_closed Generate_def well_formed_cells_def)
next
  case CODE_OUTPUT
  from wf have ne: "cells s \<noteq> []" by (simp add: well_formed_cells_def)
  show ?thesis
  proof (cases "last (cells s)")
    case (MarkdownCell src)
    with g wf ne CODE_OUTPUT show ?thesis
      by (simp add: depart_literal_block_def strip_blank_lines_closed warn_def)
  next
    case (CodeCell src outs)
    show ?thesis
    proof (cases "outs = []")
      case True
      have "well_formed_cells (butlast (cells s)
              @ [CodeCell src [Generate cfg CODE_OUTPUT (strip_text (concat (code_lines s))) (nodelang s)]])"
        using wf by (intro well_formed_butlast_snoc) simp_all
      with g ne CODE_OUTPUT CodeCell True show ?thesis
        by (simp add: depart_literal_block_def strip_blank_lines_closed)
    next
      case False
      with g wf ne CODE_OUTPUT CodeCell show ?thesis
        by (simp add: depart_literal_block_def strip_blank_lines_closed warn_def)
    qed
  next
    case (StreamOutput t)
    with well_formed_last[OF wf] show ?thesis by simp
  qed
qed

lemma code_visit_strategy:
  "\<exists>g. output_cell_type (code_visit_literal_block cfg classes language s) = Some g"
  by (simp add: code_visit_literal_block_def Let_def)

lemma walk_block_well_formed:
  assumes "well_formed_cells (cells s)"
  shows "\<exists>s'. walkabout cfg (literal_block_node b) s = Inr s' \<and> well_formed_cells (cells s')"
proof -
  obtain classes language texts where b: "b = (classes, language, texts)"
    by (cases b) auto
  let ?s1 = "(flushed (code_visit_literal_block cfg classes language s))\<lparr>code_lines := texts\<rparr>"
  obtain g where "output_cell_type ?s1 = Some g"
    using code_visit_strategy[of cfg classes language s] by (auto simp: flushed_fields)
  moreover have "well_formed_cells (cells ?s1)"
    using well_formed_flushed[of "code_visit_literal_block cfg classes language s"] assms
    by (simp add: code_visit_fields)
  ultimately show ?thesis
    unfolding b walk_literal_block by (rule depart_literal_block_well_formed)
qed

lemma run_blocks_well_formed:
  "well_formed_cells (cells s) \<Longrightarrow>
     \<exists>s'. run cfg (concat (map (\<lambda>b. events_of (literal_block_node b)) blocks)) s = Inr s'
        \<and> well_formed_cells (cells s')"
proof (induction blocks arbitrary: s)
  case Nil
  then show ?case by simp
next
  case (Cons b blocks)
  from walk_block_well_formed[OF Cons.prems, of cfg b]
  obtain s1 where s1: "run cfg (events_of (literal_block_node b)) s = Inr s1"
    "well_formed_cells (cells s1)" by (auto simp: walkabout_def)
  from Cons.IH[OF s1(2)] s1(1) show ?case by (simp add: run_append)
qed

lemma output_after_markdown:
  "output_cell_type s = Some CODE_OUTPUT \<Longrightarrow> cells s \<noteq> [] \<Longrightarrow> last (cells s) = MarkdownCell src \<Longrightarrow>
     depart_literal_block cfg s
       = Inr (s\<lparr>reports := reports s @ [Warning (OutputAfter ''markdown'')], in_code_block := False\<rparr>)"
  by (simp add: depart_literal_block_def strip_blank_lines_closed warn_def)

lemma output_after_output:
  "output_cell_type s = Some CODE_OUTPUT \<Longrightarrow> cells s \<noteq> [] \<Longrightarrow> last (cells s) = CodeCell src outs \<Longrightarrow>
   outs \<noteq> [] \<Longrightarrow>
     depart_literal_block cfg s
       = Inr (s\<lparr>reports := reports s @ [Warning MultipleOutputs], in_code_block := False\<rparr>)"
  by (simp add: depart_literal_block_def strip_blank_lines_closed warn_def)

text \<open>The attachment reads the last cell of the stream: with no cell in the stream at all
  there is none to read.\<close>

lemma output_on_empty_stream:
  "output_cell_type s = Some CODE_OUTPUT \<Longrightarrow> cells s = [] \<Longrightarrow>
     depart_literal_block cfg s = Inl IndexError"
  by (simp add: depart_literal_block_def strip_blank_lines_closed)

text \<open>
  From a cell stream that holds at least one cell, only cells, and at most one output
  on each code cell, every sequence of code and output-capture blocks is walked to the
  end without an exception, and the stream it leaves is of that kind again: each code
  cell carries at most one output. Exiting an output-capture block whose most recent
  cell is a markdown cell, or a code cell that has an output already, leaves the cell
  stream as it is, appends a warning to the reports and clears the code mode.
\<close>

theorem output_attachment_unique:
  "(well_formed_cells (cells s) \<longrightarrow>
      (\<exists>s'. run cfg (concat (map (\<lambda>b. events_of (literal_block_node b)) blocks)) s = Inr s'
         \<and> well_formed_cells (cells s')
         \<and> (\<forall>src outs. CodeCell src outs \<in> set (cells s') \<longrightarrow> length outs \<le> 1)))
   \<and> (output_cell_type s = Some CODE_OUTPUT \<and> cells s \<noteq> [] \<and> last (cells s) = MarkdownCell src
        \<longrightarrow> depart_literal_block cfg s
              = Inr (s\<lparr>reports := reports s @ [Warning (OutputAfter ''markdown'')],
                       in_code_block := False\<rparr>))
   \<and> (output_cell_type s = Some CODE_OUTPUT \<and> cells s \<noteq> []
        \<and> last (cells s) = CodeCell src outs \<and> outs \<noteq> []
        \<longrightarrow> depart_literal_block cfg s
              = Inr (s\<lparr>reports := reports s @ [Warning MultipleOutputs],
                       in_code_block := False\<rparr>))"
proof (intro conjI impI)
  assume "well_formed_cells (cells s)"
  from run_blocks_well_formed[OF this, of cfg blocks]
  obtain s' where s': "run cfg (concat (map (\<lambda>b. events_of (literal_block_node b)) blocks)) s = Inr s'"
    "well_formed_cells (cells s')" by blast
  have "\<forall>src outs. CodeCell src outs \<in> set (cells s') \<longrightarrow> length outs \<le> 1"
  proof (intro allI impI)
    fix src outs assume "CodeCell src outs \<in> set (cells s')"
    with s'(2) have "at_most_one_output (CodeCell src outs)"
      by (auto simp: well_formed_cells_def list_all_iff)
    then show "length outs \<le> 1" by simp
  qed
  with s' show "\<exists>s'. run cfg (concat (map (\<lambda>b. events_of (literal_block_node b)) blocks)) s = Inr s'
         \<and> well_formed_cells (cells s')
         \<and> (\<forall>src outs. CodeCell src outs \<in> set (cells s') \<longrightarrow> length outs \<le> 1)"
    by blast
next
  assume "output_cell_type s = Some CODE_OUTPUT \<and> cells s \<noteq> [] \<and> last (cells s) = MarkdownCell src"
  then show "depart_literal_block cfg s
              = Inr (s\<lparr>reports := reports s @ [Warning (OutputAfter ''markdown'')],
                       in_code_block := False\<rparr>)"
    by (intro output_after_markdown) blast+
next
  assume "output_cell_type s = Some CODE_OUTPUT \<and> cells s \<noteq> []
        \<and> last (cells s) = CodeCell src outs \<and> outs \<noteq> []"
  then show "depart_literal_block cfg s
              = Inr (s\<lparr>reports := reports s @ [Warning MultipleOutputs],
                       in_code_block := False\<rparr>)"
    by (intro output_after_output) blast+
qed

theorem output_attachment_unique_witness:
  "(\<exists>s'. run example_config
            (concat (map (\<lambda>b. events_of (literal_block_node b))
               [([], None, [''x = 1'']), ([''output''], None, [''1'']), ([''output''], None, [''2''])]))
            (example_state\<lparr>cells := [MarkdownCell ''Intro'']\<rparr>) = Inr s'
       \<and> well_formed_cells (cells s')
       \<and> (\<forall>src outs. CodeCell src outs \<in> set (cells s') \<longrightarrow> length outs \<le> 1))
   \<and> depart_literal_block example_config
        (example_state\<lparr>cells := [MarkdownCell ''Intro''], output_cell_type := Some CODE_OUTPUT,
           code_lines := [''1''], in_code_block := True\<rparr>)
      = Inr (example_state\<lparr>cells := [MarkdownCell ''Intro''], output_cell_type := Some CODE_OUTPUT,
           code_lines := [''1''], in_code_block := False,
           reports := [Warning (OutputAfter ''markdown'')]\<rparr>)
   \<and> depart_literal_block example_config
        (example_state\<lparr>cells := [CodeCell ''x = 1'' [StreamOutput ''1'']],
           output_cell_type := Some CODE_OUTPUT, code_lines := [''2''], in_code_block := True\<rparr>)
      = Inr (example_state\<lparr>cells := [CodeCell ''x = 1'' [StreamOutput ''1'']],
           output_cell_type := Some CODE_OUTPUT, code_lines := [''2''], in_code_block := False,
           reports := [Warning MultipleOutputs]\<rparr>)"
  using output_attachment_unique
    [of "example_state\<lparr>cells := [MarkdownCell ''Intro'']\<rparr>" example_config
        "[([], None, [''x = 1'']), ([''output''], None, [''1'']), ([''output''], None, [''2''])]"]
    output_attachment_unique
    [of "example_state\<lparr>cells := [MarkdownCell ''Intro''], output_cell_type := Some CODE_OUTPUT,
           code_lines := [''1''], in_code_block := True\<rparr>" example_config "[]" "''Intro''"]
    output_attachment_unique
    [of "example_state\<lparr>cells := [CodeCell ''x = 1'' [StreamOutput ''1'']],
           output_cell_type := Some CODE_OUTPUT, code_lines := [''2''], in_code_block := True\<rparr>"
        example_config "[]" "''x = 1''" "[StreamOutput ''1'']"]
  by (simp add: example_state_def well_formed_cells_def)

text \<open>
  C3: an output-capture block that does not follow a code cell is to be discarded with a
  warning, the traversal going on without an exception. The code does so only when the
  cell stream holds a cell. In a document that starts with an output-capture block,
  translated without welcome block and without metadata cell, the cell stream is empty
  when the block is left: reading its last cell raises IndexError and the traversal
  stops. The same document translated with the metadata cell is walked to the end, the
  output discarded and the warning reported.
\<close>

theorem leading_output_block_raises:
  "translate_document example_config
     (Node Document [Node (LiteralBlock [''output''] None) [Node (TextNode ''42'') []]])
     = Inl IndexError
   \<and> (case translate_document (example_config\<lparr>jupyter_write_metadata := True\<rparr>)
              (Node Document [Node (LiteralBlock [''output''] None) [Node (TextNode ''42'') []]]) of
         Inr s' \<Rightarrow> (cells s', reports s')
       | Inl e \<Rightarrow> ([], []))
       = ([MarkdownCell ''Notebook created''], [Warning (OutputAfter ''markdown'')])"
  by (simp add: translate_document_def example_config_def init_def walkabout_def
      visit_document_def code_visit_document_def default_lang_def visit_Text_def
      visit_literal_block_def code_visit_literal_block_def Let_def add_markdown_cell_def
      strip_blank_lines_closed strip_text_def blank_def strip_def is_space_def nl_def
      depart_literal_block_def Generate_def warn_def depart_document_def
      code_depart_document_def)

section \<open>Effect of the handlers on the cell stream\<close>

lemma fold_insert_at_0: "fold (insert_at 0) (rev hl) cs = hl @ cs"
  by (induction hl) (simp_all add: insert_at_def)

lemma fold_insert_at_1: "fold (insert_at (Suc 0)) (rev hl) (c # cs) = c # hl @ cs"
  by (induction hl) (simp_all add: insert_at_def)

lemma handle_cells_other:
  assumes "handle cfg e s = Inr s'"
    and "e \<noteq> Visit Title" and "e \<noteq> Depart Document" and "e \<noteq> Depart BulletList"
    and "\<forall>c l. e \<noteq> Visit (LiteralBlock c l) \<and> e \<noteq> Depart (LiteralBlock c l)"
  shows "cells s' = cells s \<and> jupyter_headers s' = jupyter_headers s"
proof (cases e)
  case (Visit k)
  with assms show ?thesis
    by (cases k)
       (auto simp: visit_document_def code_visit_document_def visit_Text_def visit_image_def
          visit_math_def visit_displaymath_def append_md_def Let_def visit_reference_def
          visit_target_def visit_bullet_list_def visit_enumerated_list_def visit_list_item_def
          visit_definition_list_def visit_term_def visit_definition_def visit_citation_def
          visit_label_def visit_highlightlang_def warn_def
          split: if_splits option.splits)
next
  case (Depart k)
  with assms show ?thesis
    by (cases k)
       (auto simp: depart_paragraph_def append_md_def Let_def depart_reference_def error_def
          depart_enumerated_list_def depart_list_item_def depart_definition_list_def
          depart_term_def depart_definition_def depart_label_def
          split: if_splits option.splits)
qed


lemma visit_title_flushed:
  "visit_title s =
     Inr (append_md (replicate (nat (section_level s + (if in_topic s then 1 else 0))) CHR ''#'' @ '' '')
            (flushed s))"
  by (simp add: visit_title_def add_markdown_cell_flushed flushed_def Let_def)

lemma depart_document_flushed:
  "depart_document cfg s = code_depart_document cfg (flushed s)"
  by (simp add: depart_document_def add_markdown_cell_flushed)

lemma depart_bullet_list_topic:
  "list_level s = 1 \<Longrightarrow> in_topic s \<Longrightarrow> bullets s \<noteq> [] \<Longrightarrow> indents s \<noteq> [] \<Longrightarrow>
     depart_bullet_list s =
       Inr ((flushed (append_md sep_paras (s\<lparr>list_level := 0\<rparr>)))
              \<lparr>bullets := butlast (bullets s), indents := butlast (indents s)\<rparr>)"
  by (simp add: depart_bullet_list_def Let_def add_markdown_cell_flushed append_md_def flushed_def)

lemma depart_bullet_list_no_flush:
  "\<not> (list_level s = 1 \<and> in_topic s) \<Longrightarrow> depart_bullet_list s = Inr s' \<Longrightarrow>
     cells s' = cells s \<and> jupyter_headers s' = jupyter_headers s"
  by (auto simp: depart_bullet_list_def Let_def append_md_def split: if_splits)

lemma depart_bullet_list_cells:
  "depart_bullet_list s = Inr s' \<Longrightarrow>
     (cells s' = cells s \<or> (\<exists>b. cells s' = cells s @ [MarkdownCell b]))
     \<and> jupyter_headers s' = jupyter_headers s"
  by (auto simp: depart_bullet_list_def Let_def append_md_def add_markdown_cell_flushed flushed_def
      split: if_splits)

lemma depart_literal_block_effect:
  assumes "depart_literal_block cfg s = Inr s'"
  shows "markdown_lines s' = markdown_lines s \<and> jupyter_headers s' = jupyter_headers s
         \<and> (cells s' = cells s \<or> (\<exists>c. cells s' = cells s @ [c])
              \<or> (\<exists>src out. cells s \<noteq> [] \<and> last (cells s) = CodeCell src []
                    \<and> cells s' = butlast (cells s) @ [CodeCell src [out]]))"
  using assms
  by (auto simp: depart_literal_block_def strip_blank_lines_closed warn_def Let_def
      split: option.splits if_splits nbnode.splits)

lemma flushed_headers: "jupyter_headers (flushed s) = jupyter_headers s"
  by (simp add: flushed_def Let_def)

lemma handle_first_cell:
  assumes h: "handle cfg e s = Inr s'" and nd: "e \<noteq> Depart Document"
    and c: "cells s = MarkdownCell m # rest"
  shows "(\<exists>rest'. cells s' = MarkdownCell m # rest') \<and> jupyter_headers s' = jupyter_headers s"
proof -
  consider (title) "e = Visit Title" | (bl) "e = Depart BulletList"
    | (vlb) classes language where "e = Visit (LiteralBlock classes language)"
    | (dlb) classes language where "e = Depart (LiteralBlock classes language)"
    | (other) "e \<noteq> Visit Title" "e \<noteq> Depart BulletList"
        "\<forall>c l. e \<noteq> Visit (LiteralBlock c l) \<and> e \<noteq> Depart (LiteralBlock c l)"
    by blast
  then show ?thesis
  proof cases
    case title
    with h c flushed_cells_cases[of s] show ?thesis
      by (auto simp: visit_title_flushed append_md_def flushed_headers)
  next
    case bl
    with h c depart_bullet_list_cells[of s s'] show ?thesis by auto
  next
    case vlb
    with h c flushed_cells_cases[of "code_visit_literal_block cfg classes language s"]
    show ?thesis
      by (auto simp: visit_literal_block_flushed code_visit_fields flushed_headers
          code_visit_literal_block_def Let_def)
  next
    case dlb
    with h have d: "depart_literal_block cfg s = Inr s'" by simp
    from depart_literal_block_effect[OF d] c show ?thesis
      by (cases rest) (auto simp: butlast_append)
  next
    case other
    with handle_cells_other[OF h] nd c show ?thesis by auto
  qed
qed

lemma run_first_cell:
  "run cfg es s = Inr s' \<Longrightarrow> Depart Document \<notin> set es \<Longrightarrow> cells s = MarkdownCell m # rest \<Longrightarrow>
     (\<exists>rest'. cells s' = MarkdownCell m # rest') \<and> jupyter_headers s' = jupyter_headers s"
proof (induction es arbitrary: s rest)
  case Nil
  then show ?case by simp
next
  case (Cons e es)
  from Cons.prems(1) obtain s1 where s1: "handle cfg e s = Inr s1" "run cfg es s1 = Inr s'"
    by (auto split: sum.splits)
  from handle_first_cell[OF s1(1) _ Cons.prems(3)] Cons.prems(2)
  obtain rest1 where r: "cells s1 = MarkdownCell m # rest1" "jupyter_headers s1 = jupyter_headers s"
    by auto
  from Cons.IH[OF s1(2) _ r(1)] Cons.prems(2) r(2) show ?case by auto
qed

lemma code_depart_document_cells:
  assumes "code_depart_document cfg s = Inr s'"
  shows "cells s' =
           fold (\<lambda>h cs. if jupyter_write_metadata cfg then insert_at 1 h cs else insert_at 0 h cs)
             (rev (headers_for s')) (cells s)"
  using assms
  by (auto simp: code_depart_document_def Let_def headers_for_def warn_def
      split: option.splits if_splits)

section \<open>Header cells\<close>

lemma init_cells:
  "init cfg = Inr s0 \<Longrightarrow> welcome_block cfg = None \<Longrightarrow> jupyter_write_metadata cfg \<Longrightarrow>
     cells s0 = [MarkdownCell (metadata cfg)]"
  by (auto simp: init_def split: if_splits option.splits sum.splits)

lemma code_depart_document_headers:
  "code_depart_document cfg s = Inr s' \<Longrightarrow> jupyter_headers s' = jupyter_headers s"
  by (auto simp: code_depart_document_def Let_def warn_def split: option.splits if_splits)

lemma finalize_with_metadata:
  assumes w: "welcome_block cfg = None" and m: "jupyter_write_metadata cfg"
    and i: "init cfg = Inr s0" and nd: "Depart Document \<notin> set es"
    and r: "run cfg (es @ [Depart Document]) s0 = Inr s'"
  shows "(\<exists>rest. cells s' = MarkdownCell (metadata cfg) # headers_for s' @ rest)
         \<and> jupyter_headers s' = jupyter_headers s0"
proof -
  from r obtain s1 where s1: "run cfg es s0 = Inr s1" "depart_document cfg s1 = Inr s'"
    by (auto simp: run_append split: sum.splits)
  from run_first_cell[OF s1(1) nd init_cells[OF i w m]]
  obtain rest1 where r1: "cells s1 = MarkdownCell (metadata cfg) # rest1" by blast
  from run_first_cell[OF s1(1) nd init_cells[OF i w m]]
  have h1: "jupyter_headers s1 = jupyter_headers s0" by blast
  from flushed_cells_cases[of s1] r1
  obtain rest2 where r2: "cells (flushed s1) = MarkdownCell (metadata cfg) # rest2" by auto
  from s1(2) have d: "code_depart_document cfg (flushed s1) = Inr s'"
    by (simp add: depart_document_flushed)
  from code_depart_document_cells[OF d] m r2
  have "cells s' = MarkdownCell (metadata cfg) # headers_for s' @ rest2"
    by (simp add: fold_insert_at_1)
  moreover from code_depart_document_headers[OF d] h1
  have "jupyter_headers s' = jupyter_headers s0" by (simp add: flushed_headers)
  ultimately show ?thesis by blast
qed

lemma finalize_without_metadata:
  assumes m: "\<not> jupyter_write_metadata cfg"
    and r: "run cfg (es @ [Depart Document]) s = Inr s'"
  shows "\<exists>rest. cells s' = headers_for s' @ rest"
proof -
  from r obtain s1 where s1: "run cfg es s = Inr s1" "depart_document cfg s1 = Inr s'"
    by (auto simp: run_append split: sum.splits)
  from s1(2) have "code_depart_document cfg (flushed s1) = Inr s'"
    by (simp add: depart_document_flushed)
  from code_depart_document_cells[OF this] m
  have "cells s' = headers_for s' @ cells (flushed s1)"
    by (simp add: fold_insert_at_0)
  then show ?thesis by blast
qed

text \<open>
  C6, as stated, fails when a welcome block was found: the constructor appends the
  welcome cell before the metadata cell, and the headers, inserted at index 1, land
  between the two. The metadata cell is then neither the first cell nor followed by the
  headers.
\<close>

theorem welcome_block_precedes_metadata_counterexample:
  "(case translate_document welcome_config (Node Document []) of
      Inr s' \<Rightarrow> cells s'
    | Inl e \<Rightarrow> [])
   = [MarkdownCell ''Welcome'', CodeCell ''%autosave 0'' [], CodeCell ''import numpy'' [],
      MarkdownCell ''Notebook created'']"
  by (simp add: translate_document_def welcome_config_def metadata_config_def example_config_def
      init_def strip_blank_lines_closed strip_text_def blank_def strip_def is_space_def nl_def
      walkabout_def visit_document_def code_visit_document_def depart_document_def
      add_markdown_cell_def code_depart_document_def default_lang_def insert_at_def Let_def)


text \<open>
  C6, amended: when no welcome block was found and metadata writing is enabled, the
  metadata cell is the first cell of the finished cell stream and the header cells the
  translator holds for the document language follow it directly, in configuration order;
  when metadata writing is disabled the header cells are the first cells of the stream,
  in configuration order.
\<close>

theorem header_cells_position:
  "(welcome_block cfg = None \<and> jupyter_write_metadata cfg \<and> init cfg = Inr s0
      \<and> Depart Document \<notin> set es \<and> run cfg (es @ [Depart Document]) s0 = Inr s' \<longrightarrow>
      (\<exists>rest. cells s' = MarkdownCell (metadata cfg) # headers_for s' @ rest)
      \<and> jupyter_headers s' = jupyter_headers s0)
   \<and> (\<not> jupyter_write_metadata cfg \<and> run cfg (es @ [Depart Document]) s = Inr s' \<longrightarrow>
        (\<exists>rest. cells s' = headers_for s' @ rest))"
  using finalize_with_metadata[of cfg s0 es s'] finalize_without_metadata[of cfg es s s']
  by blast

theorem header_cells_position_witness:
  "\<exists>s0 s'. init metadata_config = Inr s0
     \<and> run metadata_config
          ([Visit Document, Visit Paragraph, Visit (TextNode ''Hi''), Depart (TextNode ''Hi''),
            Depart Paragraph] @ [Depart Document]) s0 = Inr s'
     \<and> (\<exists>rest. cells s' = MarkdownCell (metadata metadata_config) # headers_for s' @ rest)
     \<and> jupyter_headers s' = jupyter_headers s0
     \<and> (\<exists>s''. run example_config ([Visit Document] @ [Depart Document]) example_state = Inr s''
           \<and> (\<exists>rest. cells s'' = headers_for s'' @ rest))"
proof -
  let ?s0 = "example_state\<lparr>lang := None,
               jupyter_headers :=
                 Some [''python3'' \<mapsto> [CodeCell ''%autosave 0'' [], CodeCell ''import numpy'' []]],
               cells := [MarkdownCell ''Notebook created'']\<rparr>"
  let ?es = "[Visit Document, Visit Paragraph, Visit (TextNode ''Hi''), Depart (TextNode ''Hi''),
            Depart Paragraph]"
  have i: "init metadata_config = Inr ?s0"
    by (simp add: init_def metadata_config_def example_config_def example_state_def)
  have w: "welcome_block metadata_config = None" "jupyter_write_metadata metadata_config"
    "Depart Document \<notin> set ?es"
    by (simp_all add: metadata_config_def example_config_def)
  have "\<exists>s'. run metadata_config (?es @ [Depart Document]) ?s0 = Inr s'"
    by (simp add: metadata_config_def example_config_def example_state_def
        visit_document_def code_visit_document_def visit_Text_def depart_paragraph_def
        append_md_def depart_document_def add_markdown_cell_def strip_blank_lines_closed
        code_depart_document_def Let_def default_lang_def)
  then obtain s' where r: "run metadata_config (?es @ [Depart Document]) ?s0 = Inr s'" ..
  from header_cells_position[of metadata_config ?s0 ?es s'] i w r
  have "(\<exists>rest. cells s' = MarkdownCell (metadata metadata_config) # headers_for s' @ rest)
      \<and> jupyter_headers s' = jupyter_headers ?s0" by blast
  moreover have n: "\<not> jupyter_write_metadata example_config"
    by (simp add: example_config_def)
  have "\<exists>s''. run example_config ([Visit Document] @ [Depart Document]) example_state = Inr s''"
    by (simp add: example_config_def example_state_def visit_document_def
        code_visit_document_def depart_document_def add_markdown_cell_def
        strip_blank_lines_closed code_depart_document_def Let_def default_lang_def)
  then obtain s'' where r2:
    "run example_config ([Visit Document] @ [Depart Document]) example_state = Inr s''" ..
  from header_cells_position[of example_config _ "[Visit Document]" s'' example_state] n r2
  have "\<exists>rest. cells s'' = headers_for s'' @ rest" by blast
  ultimately show ?thesis using i r r2 by blast
qed

section \<open>Flush points\<close>

text \<open>
  C2, as stated, fails on entering a code block in the document's own language: the
  pending prose is flushed there as well, although the block is not demoted and gets
  the CODE strategy.
\<close>

theorem native_code_block_flush_counterexample:
  "(case visit example_config (LiteralBlock [] None)
           (example_state\<lparr>markdown_lines := [''Some prose'', [nl, nl]]\<rparr>) of
      Inr s' \<Rightarrow> (output_cell_type s', cells s', markdown_lines s')
    | Inl e \<Rightarrow> (None, [], []))
   = (Some CODE, [MarkdownCell ''Some prose''], [])"
  by (simp add: visit_literal_block_def code_visit_literal_block_def Let_def example_config_def
      example_state_def add_markdown_cell_def strip_blank_lines_closed strip_text_def blank_def
      strip_def is_space_def nl_def)

text \<open>
  C2, amended: the markdown buffer is flushed before a title is rendered, on entering
  every literal block (right after its strategy is chosen, for a block in the document
  language as for a foreign one), at document end, and when the outermost bulleted list
  inside a topic closes. A bulleted list that closes elsewhere leaves the cell stream as
  it is, the exit of a literal block leaves the markdown buffer as it is, and no event
  other than these and the exit of an enumerated list changes the cell stream.
\<close>

theorem flush_points:
  "visit cfg Title s =
     Inr (append_md (replicate (nat (section_level s + (if in_topic s then 1 else 0))) CHR ''#'' @ '' '')
            (flushed s))
   \<and> visit cfg (LiteralBlock classes language) s =
       Inr (flushed (code_visit_literal_block cfg classes language s))
   \<and> depart cfg Document s = code_depart_document cfg (flushed s)
   \<and> (list_level s = 1 \<and> in_topic s \<and> bullets s \<noteq> [] \<and> indents s \<noteq> [] \<longrightarrow>
        depart cfg BulletList s =
          Inr ((flushed (append_md sep_paras (s\<lparr>list_level := 0\<rparr>)))
                 \<lparr>bullets := butlast (bullets s), indents := butlast (indents s)\<rparr>))
   \<and> (\<not> (list_level s = 1 \<and> in_topic s) \<and> depart cfg BulletList s = Inr s' \<longrightarrow>
        cells s' = cells s)
   \<and> (depart cfg (LiteralBlock classes language) s = Inr s' \<longrightarrow>
        markdown_lines s' = markdown_lines s)
   \<and> (handle cfg e s = Inr s' \<and> e \<noteq> Visit Title \<and> e \<noteq> Depart Document
        \<and> e \<noteq> Depart BulletList \<and> e \<noteq> Depart EnumeratedList
        \<and> (\<forall>c l. e \<noteq> Visit (LiteralBlock c l) \<and> e \<noteq> Depart (LiteralBlock c l)) \<longrightarrow>
        cells s' = cells s)"
proof (intro conjI impI)
  show "visit cfg Title s =
     Inr (append_md (replicate (nat (section_level s + (if in_topic s then 1 else 0))) CHR ''#'' @ '' '')
            (flushed s))"
    using visit_title_flushed[of s] by simp
  show "visit cfg (LiteralBlock classes language) s =
       Inr (flushed (code_visit_literal_block cfg classes language s))"
    by (simp add: visit_literal_block_flushed)
  show "depart cfg Document s = code_depart_document cfg (flushed s)"
    by (simp add: depart_document_flushed)
next
  assume "list_level s = 1 \<and> in_topic s \<and> bullets s \<noteq> [] \<and> indents s \<noteq> []"
  then show "depart cfg BulletList s =
          Inr ((flushed (append_md sep_paras (s\<lparr>list_level := 0\<rparr>)))
                 \<lparr>bullets := butlast (bullets s), indents := butlast (indents s)\<rparr>)"
    using depart_bullet_list_topic[of s] by simp
next
  assume "\<not> (list_level s = 1 \<and> in_topic s) \<and> depart cfg BulletList s = Inr s'"
  then show "cells s' = cells s"
    using depart_bullet_list_no_flush[of s s'] by simp
next
  assume "depart cfg (LiteralBlock classes language) s = Inr s'"
  then show "markdown_lines s' = markdown_lines s"
    using depart_literal_block_effect[of cfg s s'] by simp
next
  assume a: "handle cfg e s = Inr s' \<and> e \<noteq> Visit Title \<and> e \<noteq> Depart Document
        \<and> e \<noteq> Depart BulletList \<and> e \<noteq> Depart EnumeratedList
        \<and> (\<forall>c l. e \<noteq> Visit (LiteralBlock c l) \<and> e \<noteq> Depart (LiteralBlock c l))"
  then show "cells s' = cells s"
    using handle_cells_other[of cfg e s s'] by blast
qed

theorem flush_points_witness:
  "depart example_config BulletList
     (example_state\<lparr>list_level := 1, in_topic := True, bullets := [''-''], indents := [2],
        markdown_lines := [''- '', ''Contents'', [nl]]\<rparr>)
     = Inr ((flushed (append_md sep_paras
               (example_state\<lparr>list_level := 0, in_topic := True, bullets := [''-''], indents := [2],
                  markdown_lines := [''- '', ''Contents'', [nl]]\<rparr>)))
              \<lparr>bullets := [], indents := []\<rparr>)
   \<and> (\<exists>s'. depart example_config BulletList
               (example_state\<lparr>list_level := 1, bullets := [''-''], indents := [2],
                  markdown_lines := [''- '', ''Item'', [nl]]\<rparr>) = Inr s'
         \<and> cells s' = [])
   \<and> (\<exists>s'. depart example_config (LiteralBlock [] None)
               (example_state\<lparr>output_cell_type := Some CODE, code_lines := [''x''],
                  markdown_lines := [''kept'']\<rparr>) = Inr s'
         \<and> markdown_lines s' = [''kept''])
   \<and> (\<exists>s'. handle example_config (Depart Paragraph)
               (example_state\<lparr>markdown_lines := [''Text'']\<rparr>) = Inr s'
         \<and> cells s' = [])"
proof -
  let ?s1 = "example_state\<lparr>list_level := 1, in_topic := True, bullets := [''-''], indents := [2],
        markdown_lines := [''- '', ''Contents'', [nl]]\<rparr>"
  let ?s2 = "example_state\<lparr>list_level := 1, bullets := [''-''], indents := [2],
                  markdown_lines := [''- '', ''Item'', [nl]]\<rparr>"
  let ?s3 = "example_state\<lparr>output_cell_type := Some CODE, code_lines := [''x''],
                  markdown_lines := [''kept'']\<rparr>"
  let ?s4 = "example_state\<lparr>markdown_lines := [''Text'']\<rparr>"
  have "depart example_config BulletList ?s1
     = Inr ((flushed (append_md sep_paras (?s1\<lparr>list_level := 0\<rparr>)))
              \<lparr>bullets := butlast (bullets ?s1), indents := butlast (indents ?s1)\<rparr>)"
    using flush_points[of example_config ?s1] by (simp add: example_state_def)
  then have c1: "depart example_config BulletList ?s1
     = Inr ((flushed (append_md sep_paras
               (example_state\<lparr>list_level := 0, in_topic := True, bullets := [''-''], indents := [2],
                  markdown_lines := [''- '', ''Contents'', [nl]]\<rparr>)))
              \<lparr>bullets := [], indents := []\<rparr>)"
    by (simp add: example_state_def)
  have "\<exists>s'. depart example_config BulletList ?s2 = Inr s'"
    by (simp add: depart_bullet_list_def example_state_def Let_def append_md_def)
  then obtain s2' where r2: "depart example_config BulletList ?s2 = Inr s2'" ..
  with flush_points[of example_config ?s2 _ _ s2'] have c2: "cells s2' = []"
    by (simp add: example_state_def)
  have "\<exists>s'. depart example_config (LiteralBlock [] None) ?s3 = Inr s'"
    by (simp add: depart_literal_block_def example_state_def strip_blank_lines_closed)
  then obtain s3' where r3: "depart example_config (LiteralBlock [] None) ?s3 = Inr s3'" ..
  with flush_points[of example_config ?s3 "[]" None s3'] have c3: "markdown_lines s3' = [''kept'']"
    by (simp add: example_state_def)
  have "\<exists>s'. handle example_config (Depart Paragraph) ?s4 = Inr s'" by simp
  then obtain s4' where r4: "handle example_config (Depart Paragraph) ?s4 = Inr s4'" ..
  with flush_points[of example_config ?s4 _ _ s4' "Depart Paragraph"] have c4: "cells s4' = []"
    by (simp add: example_state_def)
  from c1 r2 c2 r3 c3 r4 c4 show ?thesis by blast
qed

section \<open>Flush completeness\<close>







end
